theory Spec2Isabelle
  imports Complex_Main
begin

section \<open>The simulation engine of the platform-jumping game\<close>

text \<open>
  A shallow embedding of the engine in \<^verbatim>\<open>src/components/GameCanvas.tsx\<close>, with the
  constants of \<^verbatim>\<open>src/constants.ts\<close> and the records of \<^verbatim>\<open>src/types.ts\<close>.

  Conventions of the model:
  \<^item> a JavaScript \<^verbatim>\<open>number\<close> is a \<^typ>\<open>real\<close>: rounding of IEEE doubles is not modelled;
  \<^item> an optional field (\<^verbatim>\<open>f?: T\<close>) is an \<^typ>\<open>'a option\<close>, \<^verbatim>\<open>undefined\<close> being \<^term>\<open>None\<close>;
  \<^item> the mutable refs of the component (\<^verbatim>\<open>playerRef\<close>, \<^verbatim>\<open>platformsRef\<close>, \<^verbatim>\<open>scoreRef\<close>,
    the three timer refs and the loop-timing refs) are the fields of one record \<open>Engine\<close>
    that every operation takes and returns;
  \<^item> the calls of \<^verbatim>\<open>playSound\<close>, \<^verbatim>\<open>onGameOver\<close> and \<^verbatim>\<open>onScoreUpdate\<close> are appended, in
    order, to the field \<open>trace\<close>;
  \<^item> \<^verbatim>\<open>performance.now()\<close>, the held keys and the values returned by \<^verbatim>\<open>Math.random()\<close>
    are inputs of a step (\<open>StepInput\<close>); each call site of \<^verbatim>\<open>Math.random()\<close> in the
    platform generator has its own field in \<open>Draws\<close>;
  \<^item> particles, ripples and the two colour fields of a platform are only read by the
    drawing code and are left out, with the calls of \<^verbatim>\<open>Math.random()\<close> that feed them.
\<close>

subsection \<open>Constants (constants.ts)\<close>

definition CANVAS_WIDTH :: real where "CANVAS_WIDTH = 400"
definition CANVAS_HEIGHT :: real where "CANVAS_HEIGHT = 600"
definition FRICTION :: real where "FRICTION = 0.8"
definition PLAYER_SIZE :: real where "PLAYER_SIZE = 40"
definition PLATFORM_WIDTH :: real where "PLATFORM_WIDTH = 105"
definition PLATFORM_HEIGHT :: real where "PLATFORM_HEIGHT = 15"
definition POWERUP_SIZE :: real where "POWERUP_SIZE = 20"
definition POWERUP_DURATION :: real where "POWERUP_DURATION = 10000"
definition POWERUP_SPAWN_CHANCE :: real where "POWERUP_SPAWN_CHANCE = 0.1"

lemmas game_consts =
  CANVAS_WIDTH_def CANVAS_HEIGHT_def FRICTION_def PLAYER_SIZE_def PLATFORM_WIDTH_def
  PLATFORM_HEIGHT_def POWERUP_SIZE_def POWERUP_DURATION_def POWERUP_SPAWN_CHANCE_def

record Tier =
  tmin :: real
  multiplier :: real

text \<open>\<^verbatim>\<open>SCORE_TIERS\<close>, without the colours.\<close>

definition SCORE_TIERS :: "Tier list" where
  "SCORE_TIERS =
     [\<lparr>tmin = 0, multiplier = 1\<rparr>,
      \<lparr>tmin = 1000, multiplier = 1.5\<rparr>,
      \<lparr>tmin = 2500, multiplier = 2\<rparr>,
      \<lparr>tmin = 5000, multiplier = 3\<rparr>,
      \<lparr>tmin = 8000, multiplier = 5\<rparr>]"

datatype CharacterType = YELLOW | BLUE

record CharacterSpec =
  jumpStrength :: real
  specGravity :: real
  specMoveSpeed :: real

text \<open>\<^verbatim>\<open>CHARACTER_SPECS\<close>, without the descriptions.\<close>

fun CHARACTER_SPECS :: "CharacterType \<Rightarrow> CharacterSpec" where
  "CHARACTER_SPECS YELLOW = \<lparr>jumpStrength = -15.0, specGravity = 0.5, specMoveSpeed = 1.2\<rparr>"
| "CHARACTER_SPECS BLUE = \<lparr>jumpStrength = -13.5, specGravity = 0.38, specMoveSpeed = 0.9\<rparr>"

subsection \<open>Data model (types.ts)\<close>

datatype GameState = START | PLAYING | GAME_OVER

datatype PowerUpType = SHIELD | SCORE_MULTIPLIER | GIANT | BOOSTER

text \<open>
  \<open>Player\<close> and \<open>Platform\<close> share the fields \<^verbatim>\<open>x\<close>, \<^verbatim>\<open>y\<close>, \<^verbatim>\<open>width\<close>, \<^verbatim>\<open>height\<close>; they
  are the fields of the common base record \<open>Box\<close>. The field \<^verbatim>\<open>type\<close> of the player is
  \<open>ctype\<close>, the fields \<^verbatim>\<open>id\<close> and \<^verbatim>\<open>moveSpeed\<close> of a platform are \<open>ident\<close> and
  \<open>platSpeed\<close>.
\<close>

record Box =
  x :: real
  y :: real
  width :: real
  height :: real

record Player = Box +
  vx :: real
  vy :: real
  ctype :: CharacterType
  isJumping :: bool
  baseJumpStrength :: real
  gravity :: real
  moveSpeed :: real
  shieldCount :: int
  scoreMultiplierActive :: bool
  scoreMultiplierEndTime :: "real option"
  isGiant :: bool
  giantEndTime :: "real option"
  isBoosting :: bool
  boosterEndTime :: "real option"

record Platform = Box +
  ident :: real
  isMoving :: "bool option"
  platSpeed :: "real option"
  initialX :: "real option"
  moveRange :: "real option"
  powerUp :: "PowerUpType option"

subsection \<open>Effects and inputs\<close>

datatype Sound =
  SndJump | SndDie | SndPowerup | SndShield | SndCollectShield | SndCollectStar
  | SndCollectMushroom | SndCollectRocket | SndBeep | SndStart

datatype Event = PlaySound Sound | OnGameOver | OnScoreUpdate real

text \<open>
  The values \<^verbatim>\<open>Math.random()\<close> returns at the call sites of the platform generator, in
  the order of the source. \<^verbatim>\<open>Math.random()\<close> returns a number in \<open>[0, 1)\<close>.
\<close>

record Draws =
  gapDraw :: real
  difficultyDraw :: real
  xDraw :: real
  movingDraw :: real
  signDraw :: real
  rangeDraw :: real
  size1Draw :: real
  size2Draw :: real
  spawnDraw :: real
  kindDraw :: real
  idDraw :: real

definition unitDraws :: "Draws \<Rightarrow> bool" where
  "unitDraws d \<longleftrightarrow>
     (0 \<le> gapDraw d \<and> gapDraw d < 1) \<and> (0 \<le> difficultyDraw d \<and> difficultyDraw d < 1) \<and>
     (0 \<le> xDraw d \<and> xDraw d < 1) \<and> (0 \<le> movingDraw d \<and> movingDraw d < 1) \<and>
     (0 \<le> signDraw d \<and> signDraw d < 1) \<and> (0 \<le> rangeDraw d \<and> rangeDraw d < 1) \<and>
     (0 \<le> size1Draw d \<and> size1Draw d < 1) \<and> (0 \<le> size2Draw d \<and> size2Draw d < 1) \<and>
     (0 \<le> spawnDraw d \<and> spawnDraw d < 1) \<and> (0 \<le> kindDraw d \<and> kindDraw d < 1) \<and>
     (0 \<le> idDraw d \<and> idDraw d < 1)"

text \<open>
  What one call of \<^verbatim>\<open>updatePhysics\<close> reads from outside: \<^verbatim>\<open>keysPressed.current\<close>, the
  clock read by \<^verbatim>\<open>activatePowerUp\<close>, and the random draws.
\<close>

record StepInput =
  keysPressed :: "string \<rightharpoonup> bool"
  clock :: real
  rnd :: Draws

definition held :: "(string \<rightharpoonup> bool) \<Rightarrow> string \<Rightarrow> bool" where
  "held ks k \<longleftrightarrow> ks k = Some True"

text \<open>
  A timer ref holds the due time of the pending \<^verbatim>\<open>setTimeout\<close> callback, or \<^term>\<open>None\<close>
  when none is pending.
\<close>

record Engine =
  player :: Player
  platforms :: "Platform list"
  score :: real
  multiplierTimer :: "real option"
  giantTimer :: "real option"
  boosterTimer :: "real option"
  lastTime :: real
  accumulator :: real
  readyEndTime :: real
  lastReadyCount :: real
  frameCount :: nat
  trace :: "Event list"

definition FIXED_TIMESTEP :: real where "FIXED_TIMESTEP = 1000 / 60"
definition MAX_DELTA_TIME :: real where "MAX_DELTA_TIME = 250"

definition emit :: "Event \<Rightarrow> Engine \<Rightarrow> Engine" where
  "emit ev e = e\<lparr>trace := trace e @ [ev]\<rparr>"

definition gameOverCalls :: "Engine \<Rightarrow> nat" where
  "gameOverCalls e = count_list (trace e) OnGameOver"

definition jumpSounds :: "Engine \<Rightarrow> nat" where
  "jumpSounds e = count_list (trace e) (PlaySound SndJump)"

subsection \<open>getCurrentTier\<close>

text \<open>
  The loop \<^verbatim>\<open>for (i = SCORE_TIERS.length - 1; i >= 0; i--)\<close> is a scan of the reversed
  table; \<open>scanTiers\<close> returns the first tier whose \<^verbatim>\<open>min\<close> the score reaches.
\<close>

fun scanTiers :: "Tier list \<Rightarrow> real \<Rightarrow> Tier option" where
  "scanTiers [] currentScore = None"
| "scanTiers (t # ts) currentScore =
     (if currentScore \<ge> tmin t then Some t else scanTiers ts currentScore)"

definition getCurrentTier :: "real \<Rightarrow> Tier" where
  "getCurrentTier currentScore =
     (case scanTiers (rev SCORE_TIERS) currentScore of
        Some t \<Rightarrow> t
      | None \<Rightarrow> hd SCORE_TIERS)"

subsection \<open>resetGame\<close>

definition initialPlatform :: "real \<Rightarrow> real \<Rightarrow> real \<Rightarrow> Platform" where
  "initialPlatform px py n =
     \<lparr>x = px, y = py, width = PLATFORM_WIDTH, height = PLATFORM_HEIGHT, ident = n,
      isMoving = None, platSpeed = None, initialX = None, moveRange = None, powerUp = None\<rparr>"

definition resetPlayer :: "CharacterType \<Rightarrow> Player" where
  "resetPlayer characterType =
     (let stats = CHARACTER_SPECS characterType in
      \<lparr>x = CANVAS_WIDTH / 2 - PLAYER_SIZE / 2, y = CANVAS_HEIGHT - 150,
       width = PLAYER_SIZE, height = PLAYER_SIZE,
       vx = 0, vy = 0, ctype = characterType, isJumping = False,
       baseJumpStrength = jumpStrength stats, gravity = specGravity stats,
       moveSpeed = specMoveSpeed stats,
       shieldCount = 0,
       scoreMultiplierActive = False, scoreMultiplierEndTime = Some 0,
       isGiant = False, giantEndTime = Some 0,
       isBoosting = False, boosterEndTime = Some 0\<rparr>)"

definition resetGame :: "CharacterType \<Rightarrow> real \<Rightarrow> Engine \<Rightarrow> Engine" where
  "resetGame characterType now e =
     emit (OnScoreUpdate 0)
       (e\<lparr>multiplierTimer := None, giantTimer := None, boosterTimer := None,
          player := resetPlayer characterType,
          platforms :=
            [initialPlatform (CANVAS_WIDTH / 2 - PLATFORM_WIDTH / 2) (CANVAS_HEIGHT - 50) 0,
             initialPlatform (CANVAS_WIDTH / 2 - PLATFORM_WIDTH / 2) (CANVAS_HEIGHT - 170) 1,
             initialPlatform (CANVAS_WIDTH / 2 - PLATFORM_WIDTH / 2 - 60) (CANVAS_HEIGHT - 290) 2,
             initialPlatform (CANVAS_WIDTH / 2 - PLATFORM_WIDTH / 2 + 60) (CANVAS_HEIGHT - 410) 3,
             initialPlatform (CANVAS_WIDTH / 2 - PLATFORM_WIDTH / 2) (CANVAS_HEIGHT - 530) 4],
          score := 0,
          readyEndTime := now + 1500,
          lastReadyCount := 1,
          lastTime := now,
          accumulator := 0\<rparr>)"

text \<open>The values the refs are created with, before the first \<^verbatim>\<open>resetGame\<close>.\<close>

definition initialEngine :: "CharacterType \<Rightarrow> Engine" where
  "initialEngine characterType =
     \<lparr>player =
        \<lparr>x = CANVAS_WIDTH / 2 - PLAYER_SIZE / 2, y = CANVAS_HEIGHT - 150,
         width = PLAYER_SIZE, height = PLAYER_SIZE,
         vx = 0, vy = 0, ctype = characterType, isJumping = False,
         baseJumpStrength = -14, gravity = 0.5, moveSpeed = 1.0,
         shieldCount = 0,
         scoreMultiplierActive = False, scoreMultiplierEndTime = Some 0,
         isGiant = False, giantEndTime = Some 0,
         isBoosting = False, boosterEndTime = Some 0\<rparr>,
      platforms = [], score = 0,
      multiplierTimer = None, giantTimer = None, boosterTimer = None,
      lastTime = 0, accumulator = 0, readyEndTime = 0, lastReadyCount = 0,
      frameCount = 0, trace = []\<rparr>"

subsection \<open>activatePowerUp and the expiry callbacks\<close>

text \<open>
  \<^verbatim>\<open>p.active && p.endTime && p.endTime > now\<close>: the end time is truthy when it is defined
  and not zero.
\<close>

definition extended :: "bool \<Rightarrow> real option \<Rightarrow> real \<Rightarrow> real \<Rightarrow> real" where
  "extended active endTime now duration =
     (case endTime of
        Some t \<Rightarrow> (if active \<and> t \<noteq> 0 \<and> t > now then duration + (t - now) else duration)
      | None \<Rightarrow> duration)"

definition grow :: "Player \<Rightarrow> Player" where
  "grow p =
     (if \<not> isGiant p then
        (let oldW = width p; oldH = height p;
             p1 = p\<lparr>width := PLAYER_SIZE * 2.0, height := PLAYER_SIZE * 2.0\<rparr>;
             p2 = p1\<lparr>y := y p1 - (height p1 - oldH)\<rparr>
         in p2\<lparr>x := x p2 - (width p2 - oldW) / 2\<rparr>)
      else p)"

definition activatePowerUp :: "PowerUpType \<Rightarrow> real \<Rightarrow> Engine \<Rightarrow> Engine" where
  "activatePowerUp t now e =
     (let p = player e in
      case t of
        SHIELD \<Rightarrow>
          (emit (PlaySound SndCollectShield) e)\<lparr>player := p\<lparr>shieldCount := 1\<rparr>\<rparr>
      | SCORE_MULTIPLIER \<Rightarrow>
          (let duration =
                 extended (scoreMultiplierActive p) (scoreMultiplierEndTime p) now POWERUP_DURATION
           in (emit (PlaySound SndCollectStar) e)
                \<lparr>player := p\<lparr>scoreMultiplierActive := True,
                              scoreMultiplierEndTime := Some (now + duration)\<rparr>,
                 multiplierTimer := Some (now + duration)\<rparr>)
      | GIANT \<Rightarrow>
          (let duration = extended (isGiant p) (giantEndTime p) now 5000
           in (emit (PlaySound SndCollectMushroom) e)
                \<lparr>player := (grow p)\<lparr>isGiant := True, giantEndTime := Some (now + duration)\<rparr>,
                 giantTimer := Some (now + duration)\<rparr>)
      | BOOSTER \<Rightarrow>
          (let duration = extended (isBoosting p) (boosterEndTime p) now 3000
           in (emit (PlaySound SndCollectRocket) e)
                \<lparr>player := p\<lparr>isBoosting := True, boosterEndTime := Some (now + duration)\<rparr>,
                 boosterTimer := Some (now + duration)\<rparr>))"

text \<open>The three callbacks given to \<^verbatim>\<open>window.setTimeout\<close>; a callback runs only while pending.\<close>

definition shrink :: "Player \<Rightarrow> Player" where
  "shrink p =
     (let c1 = p\<lparr>isGiant := False\<rparr>;
          shrinkAmount = height c1 - PLAYER_SIZE;
          c2 = c1\<lparr>y := y c1 + shrinkAmount\<rparr>;
          c3 = c2\<lparr>x := x c2 + (width c2 - PLAYER_SIZE) / 2\<rparr>
      in c3\<lparr>width := PLAYER_SIZE, height := PLAYER_SIZE\<rparr>)"

definition multiplierTimeout :: "Engine \<Rightarrow> Engine" where
  "multiplierTimeout e =
     (case multiplierTimer e of
        None \<Rightarrow> e
      | Some due \<Rightarrow>
          e\<lparr>player := (player e)\<lparr>scoreMultiplierActive := False\<rparr>, multiplierTimer := None\<rparr>)"

definition giantTimeout :: "Engine \<Rightarrow> Engine" where
  "giantTimeout e =
     (case giantTimer e of
        None \<Rightarrow> e
      | Some due \<Rightarrow> e\<lparr>player := shrink (player e), giantTimer := None\<rparr>)"

definition boosterTimeout :: "Engine \<Rightarrow> Engine" where
  "boosterTimeout e =
     (case boosterTimer e of
        None \<Rightarrow> e
      | Some due \<Rightarrow> e\<lparr>player := (player e)\<lparr>isBoosting := False\<rparr>, boosterTimer := None\<rparr>)"

subsection \<open>updatePhysics\<close>

text \<open>Moving platforms: the body of the first \<^verbatim>\<open>platforms.forEach\<close>.\<close>

definition movePlatform :: "Platform \<Rightarrow> Platform" where
  "movePlatform p =
     (case (isMoving p, platSpeed p, initialX p, moveRange p) of
        (Some True, Some v, Some ix, Some mr) \<Rightarrow>
          (if v \<noteq> 0 then
             (let p1 = p\<lparr>x := x p + v\<rparr>;
                  p2 = (if x p1 > ix + mr \<or> x p1 < ix - mr
                        then p1\<lparr>platSpeed := Some (- v)\<rparr> else p1);
                  p3 = (if x p2 < 0
                        then p2\<lparr>x := 0, platSpeed := Some \<bar>the (platSpeed p2)\<bar>\<rparr> else p2)
              in if x p3 + width p3 > CANVAS_WIDTH
                 then p3\<lparr>x := CANVAS_WIDTH - width p3,
                         platSpeed := Some (- \<bar>the (platSpeed p3)\<bar>)\<rparr>
                 else p3)
           else p)
      | _ \<Rightarrow> p)"

text \<open>
  Player movement. \<open>accelerate\<close> is the input, the friction and \<^verbatim>\<open>player.x += player.vx\<close>;
  \<open>clampLeft\<close> and \<open>clampRight\<close> are the two tests that follow.
\<close>

definition accelerate :: "(string \<rightharpoonup> bool) \<Rightarrow> Player \<Rightarrow> Player" where
  "accelerate ks p =
     (let p1 = (if held ks ''ArrowLeft'' \<or> held ks ''KeyA''
                then p\<lparr>vx := vx p - moveSpeed p\<rparr> else p);
          p2 = (if held ks ''ArrowRight'' \<or> held ks ''KeyD''
                then p1\<lparr>vx := vx p1 + moveSpeed p1\<rparr> else p1);
          p3 = p2\<lparr>vx := vx p2 * FRICTION\<rparr>
      in p3\<lparr>x := x p3 + vx p3\<rparr>)"

definition clampLeft :: "Player \<Rightarrow> Player" where
  "clampLeft p = (if x p < 0 then p\<lparr>x := 0, vx := 0\<rparr> else p)"

definition clampRight :: "Player \<Rightarrow> Player" where
  "clampRight p =
     (if x p + width p > CANVAS_WIDTH then p\<lparr>x := CANVAS_WIDTH - width p, vx := 0\<rparr> else p)"

definition moveHorizontal :: "(string \<rightharpoonup> bool) \<Rightarrow> Player \<Rightarrow> Player" where
  "moveHorizontal ks p = clampRight (clampLeft (accelerate ks p))"


text \<open>Physics update: booster or gravity, then integration of \<^verbatim>\<open>y\<close>.\<close>

definition moveVertical :: "Player \<Rightarrow> Player" where
  "moveVertical p =
     (let p1 = (if isBoosting p then p\<lparr>vy := -12\<rparr> else p\<lparr>vy := vy p + gravity p\<rparr>)
      in p1\<lparr>y := y p1 + vy p1\<rparr>)"

text \<open>The landing test of the second \<^verbatim>\<open>platforms.forEach\<close>, and the bounce.\<close>

definition landsOn :: "Player \<Rightarrow> Platform \<Rightarrow> bool" where
  "landsOn p plat \<longleftrightarrow>
     vy p > 0 \<and> \<not> isBoosting p \<and>
     (let playerLeft = x p + 5;
          playerRight = x p + width p - 5;
          platLeft = x plat;
          platRight = x plat + width plat
      in playerRight > platLeft \<and> playerLeft < platRight \<and>
         y p + height p \<ge> y plat \<and> y p + height p \<le> y plat + 20)"

definition bounce :: "Platform \<Rightarrow> Player \<Rightarrow> Player" where
  "bounce plat p =
     (let p1 = p\<lparr>vy := baseJumpStrength p\<rparr>;
          p2 = p1\<lparr>y := y plat - height p1\<rparr>
      in p2\<lparr>vx := vx p2 * 0.5\<rparr>)"

definition landing :: "Platform \<Rightarrow> Engine \<Rightarrow> Engine" where
  "landing plat e =
     (if landsOn (player e) plat
      then emit (PlaySound SndJump) (e\<lparr>player := bounce plat (player e)\<rparr>)
      else e)"

text \<open>Power-up collection; \<^verbatim>\<open>Math.hypot\<close> is the Euclidean norm.\<close>

definition hypot :: "real \<Rightarrow> real \<Rightarrow> real" where
  "hypot a b = sqrt (a * a + b * b)"

definition inReach :: "Player \<Rightarrow> Platform \<Rightarrow> bool" where
  "inReach p plat \<longleftrightarrow>
     (let puX = x plat + width plat / 2;
          puY = y plat - POWERUP_SIZE;
          dist = hypot ((x p + width p / 2) - puX) ((y p + height p / 2) - puY);
          collectionRadius = width p * (if isBoosting p then 1.5 else 1.0)
      in dist < collectionRadius)"

definition collect :: "real \<Rightarrow> Platform \<Rightarrow> Engine \<Rightarrow> Platform \<times> Engine" where
  "collect now plat e =
     (case powerUp plat of
        None \<Rightarrow> (plat, e)
      | Some t \<Rightarrow>
          (if inReach (player e) plat
           then (plat\<lparr>powerUp := None\<rparr>, activatePowerUp t now e)
           else (plat, e)))"

text \<open>
  The second \<^verbatim>\<open>platforms.forEach\<close>: the platforms are visited in the order of the array.
  \<open>interactStep\<close> is the body of the loop for one platform; it appends the platform (a
  collected token is cleared) to the platforms already visited and returns the engine.
\<close>

definition interactStep ::
  "real \<Rightarrow> Platform list \<times> Engine \<Rightarrow> Platform \<Rightarrow> Platform list \<times> Engine" where
  "interactStep now acc plat =
     (let r = collect now plat (landing plat (snd acc)) in (fst acc @ [fst r], snd r))"

definition interactLoop :: "real \<Rightarrow> Platform list \<Rightarrow> Engine \<Rightarrow> Platform list \<times> Engine" where
  "interactLoop now ps e = foldl (interactStep now) ([], e) ps"

definition interactPlatforms :: "real \<Rightarrow> Engine \<Rightarrow> Engine" where
  "interactPlatforms now e =
     (let (ps, e1) = interactLoop now (platforms e) e in e1\<lparr>platforms := ps\<rparr>)"

text \<open>
  Generation of one platform above \<^verbatim>\<open>lastPlat\<close>; \<^verbatim>\<open>currentScore\<close> is the score read at
  the beginning of \<^verbatim>\<open>updatePhysics\<close>.
\<close>

definition moveResize :: "real \<Rightarrow> real \<Rightarrow> real" where
  "moveResize draw newWidth =
     (let sizeRandom = 0.7 + draw * 0.6
      in max 40 (min (newWidth * sizeRandom) (PLATFORM_WIDTH * 1.5)))"

definition newPlatform :: "real \<Rightarrow> Draws \<Rightarrow> Platform \<Rightarrow> Platform" where
  "newPlatform currentScore d lastPlat =
     (let gapY = gapDraw d * 50 + 60;
          ny = y lastPlat - gapY;
          randomDifficulty = 0.8 + difficultyDraw d * 0.4;
          w0 = PLATFORM_WIDTH * randomDifficulty;
          w1 = (if currentScore > 500
                then (let shrinkFactor = min ((currentScore - 500) / 5000) 0.5
                      in max (PLATFORM_WIDTH * (1 - shrinkFactor)) 45)
                else w0);
          minX = max 0 (x lastPlat - 200);
          maxX = min (CANVAS_WIDTH - w1) (x lastPlat + 200);
          x0 = max 0 (min (xDraw d * (maxX - minX) + minX) (CANVAS_WIDTH - w1));
          moving = (currentScore > 1500 \<and>
                    movingDraw d < (if currentScore > 3000 then 0.6 else 0.3));
          baseSpeed = (if currentScore > 3000 then 2.5 else 1.5);
          speed = (if moving then (if signDraw d > 0.5 then 1 else -1) * baseSpeed else 0);
          range = (if moving then rangeDraw d * 50 + 50 else 0);
          ix1 = (if moving \<and> x0 - range < 0 then range else x0);
          ix2 = (if moving \<and> ix1 + range + w1 > CANVAS_WIDTH
                 then CANVAS_WIDTH - w1 - range else ix1);
          w2 = (if moving then moveResize (size1Draw d) w1 else w1);
          w3 = (if moving then moveResize (size2Draw d) w2 else w2);
          pu = (if spawnDraw d < POWERUP_SPAWN_CHANCE
                then Some (if kindDraw d < 0.25 then SHIELD
                           else if kindDraw d < 0.50 then SCORE_MULTIPLIER
                           else if kindDraw d < 0.75 then GIANT
                           else BOOSTER)
                else None)
      in \<lparr>x = ix2, y = ny, width = w3, height = PLATFORM_HEIGHT, ident = idDraw d,
          isMoving = Some moving, platSpeed = Some speed, initialX = Some ix2,
          moveRange = Some range, powerUp = pu\<rparr>)"

text \<open>Scrolling, score gain, recycling and generation.\<close>

definition scoreGain :: "real \<Rightarrow> Engine \<Rightarrow> real" where
  "scoreGain diff e =
     (let multiplier = (if scoreMultiplierActive (player e) then 2 else 1);
          tier = getCurrentTier (score e)
      in of_int \<lfloor>diff * multiplier * Tier.multiplier tier\<rfloor>)"

definition generate :: "real \<Rightarrow> Draws \<Rightarrow> Platform list \<Rightarrow> Platform list" where
  "generate currentScore d ps =
     (if ps \<noteq> [] \<and> y (last ps) > 70
      then ps @ [newPlatform currentScore d (last ps)]
      else ps)"

definition scrolling :: "real \<Rightarrow> Draws \<Rightarrow> Engine \<Rightarrow> Engine" where
  "scrolling currentScore d e =
     (if y (player e) < CANVAS_HEIGHT / 2 then
        (let diff = CANVAS_HEIGHT / 2 - y (player e);
             e1 = e\<lparr>player := (player e)\<lparr>y := CANVAS_HEIGHT / 2\<rparr>,
                    platforms := map (\<lambda>p. p\<lparr>y := y p + diff\<rparr>) (platforms e)\<rparr>;
             e2 = e1\<lparr>score := score e1 + scoreGain diff e1\<rparr>;
             e3 = emit (OnScoreUpdate (score e2)) e2;
             e4 = e3\<lparr>platforms := filter (\<lambda>p. y p < CANVAS_HEIGHT) (platforms e3)\<rparr>
         in e4\<lparr>platforms := generate currentScore d (platforms e4)\<rparr>)
      else e)"

text \<open>The fall-through check at the end of the step.\<close>

definition fallCheck :: "Engine \<Rightarrow> Engine" where
  "fallCheck e =
     (if y (player e) > CANVAS_HEIGHT then
        (if shieldCount (player e) > 0 then
           emit (PlaySound SndShield)
             (e\<lparr>player := (player e)\<lparr>shieldCount := shieldCount (player e) - 1,
                                       vy := baseJumpStrength (player e) * 1.5\<rparr>\<rparr>)
         else emit OnGameOver (emit (PlaySound SndDie) e))
      else e)"

text \<open>
  \<^verbatim>\<open>updatePhysics\<close> is the sequence of these phases: \<open>atLoop\<close> runs it up to the
  beginning of the second \<^verbatim>\<open>platforms.forEach\<close> (platforms and player have moved),
  \<open>beforeScroll\<close> up to the end of the platform interactions, \<open>beforeFallCheck\<close> up to the
  end of the scrolling.
\<close>

definition atLoop :: "StepInput \<Rightarrow> Engine \<Rightarrow> Engine" where
  "atLoop inp e =
     e\<lparr>platforms := map movePlatform (platforms e),
       player := moveVertical (moveHorizontal (keysPressed inp) (player e))\<rparr>"

definition beforeScroll :: "StepInput \<Rightarrow> Engine \<Rightarrow> Engine" where
  "beforeScroll inp e = interactPlatforms (clock inp) (atLoop inp e)"

definition beforeFallCheck :: "StepInput \<Rightarrow> Engine \<Rightarrow> Engine" where
  "beforeFallCheck inp e =
     (let currentScore = score e
      in scrolling currentScore (rnd inp) (beforeScroll inp e))"

definition updatePhysics :: "StepInput \<Rightarrow> Engine \<Rightarrow> Engine" where
  "updatePhysics inp e = fallCheck (beforeFallCheck inp e)"

subsection \<open>animate: the fixed-timestep driver\<close>

text \<open>
  The \<^verbatim>\<open>while\<close> loop of \<^verbatim>\<open>animate\<close>; \<open>steps\<close> is its counter and \<open>inp k\<close> what the
  \<open>k\<close>-th call of \<^verbatim>\<open>updatePhysics\<close> of this tick reads. \<open>advance\<close> is
  \<^verbatim>\<open>frameCountRef.current++; accumulatorRef.current -= FIXED_TIMESTEP\<close>.
\<close>

definition advance :: "Engine \<Rightarrow> Engine" where
  "advance e =
     e\<lparr>frameCount := Suc (frameCount e), accumulator := accumulator e - FIXED_TIMESTEP\<rparr>"

function physicsLoop :: "(nat \<Rightarrow> StepInput) \<Rightarrow> nat \<Rightarrow> Engine \<Rightarrow> Engine" where
  "physicsLoop inp steps e =
     (if accumulator e \<ge> FIXED_TIMESTEP then
        (if steps + 1 > 240
         then (advance (updatePhysics (inp steps) e))\<lparr>accumulator := 0\<rparr>
         else physicsLoop inp (steps + 1) (advance (updatePhysics (inp steps) e)))
      else e)"
  by pat_completeness auto
termination
  by (relation "measure (\<lambda>(inp, steps, e). 241 - steps)") auto

declare physicsLoop.simps [simp del]

text \<open>
  One call of \<^verbatim>\<open>animate\<close>, without \<^verbatim>\<open>draw()\<close>; \<open>gameState\<close> is the prop of the component
  and \<open>now\<close> the value of \<^verbatim>\<open>performance.now()\<close>.
\<close>

definition animate :: "GameState \<Rightarrow> real \<Rightarrow> (nat \<Rightarrow> StepInput) \<Rightarrow> Engine \<Rightarrow> Engine" where
  "animate gameState now inp e =
     (let e0 = (if lastTime e = 0 then e\<lparr>lastTime := now\<rparr> else e);
          deltaTime0 = now - lastTime e0;
          e1 = e0\<lparr>lastTime := now\<rparr>;
          deltaTime = (if deltaTime0 > MAX_DELTA_TIME then MAX_DELTA_TIME else deltaTime0)
      in if gameState = PLAYING then
           (if readyEndTime e1 - now > 0 then e1
            else
              (let e2 = (if lastReadyCount e1 > 0
                         then (emit (PlaySound SndStart) e1)\<lparr>lastReadyCount := 0\<rparr>
                         else e1);
                   e3 = e2\<lparr>accumulator := accumulator e2 + deltaTime\<rparr>
               in physicsLoop inp 0 e3))
         else e1)"

subsection \<open>Runs of the engine\<close>

text \<open>
  What can happen to the engine: a reset, a tick of \<^verbatim>\<open>animate\<close>, and the three expiry
  callbacks.
\<close>

datatype Action =
  Reset CharacterType real
  | Tick GameState real "nat \<Rightarrow> StepInput"
  | MultiplierExpires
  | GiantExpires
  | BoosterExpires

fun exec :: "Engine \<Rightarrow> Action \<Rightarrow> Engine" where
  "exec e (Reset c now) = resetGame c now e"
| "exec e (Tick gs now inp) = animate gs now inp e"
| "exec e MultiplierExpires = multiplierTimeout e"
| "exec e GiantExpires = giantTimeout e"
| "exec e BoosterExpires = boosterTimeout e"

definition run :: "Engine \<Rightarrow> Action list \<Rightarrow> Engine" where
  "run e as = foldl exec e as"

fun isReset :: "Action \<Rightarrow> bool" where
  "isReset (Reset c now) = True"
| "isReset a = False"

subsection \<open>Example states\<close>

text \<open>An input with no key held, and every draw of the generator at one half.\<close>

definition idle :: StepInput where
  "idle =
     \<lparr>keysPressed = Map.empty, clock = 0,
      rnd = \<lparr>gapDraw = 0.5, difficultyDraw = 0.5, xDraw = 0.5, movingDraw = 0.5,
             signDraw = 0.5, rangeDraw = 0.5, size1Draw = 0.5, size2Draw = 0.5,
             spawnDraw = 0.5, kindDraw = 0.5, idDraw = 0.5\<rparr>\<rparr>"

definition fresh :: Engine where
  "fresh = resetGame YELLOW 0 (initialEngine YELLOW)"

text \<open>
  A round at score 2600 with the score multiplier active: the player rises through the
  midline of the canvas.
\<close>

definition climbing :: Engine where
  "climbing =
     fresh\<lparr>player := (resetPlayer YELLOW)\<lparr>y := 305, vy := -10, scoreMultiplierActive := True\<rparr>,
           score := 2600\<rparr>"

text \<open>A fresh round in which the score multiplier was collected at time 0.\<close>

definition starred :: Engine where
  "starred = activatePowerUp SCORE_MULTIPLIER 0 fresh"

subsection \<open>The size of the player and its centre\<close>

text \<open>
  The size invariant of the player, and its centre as the code computes it
  (\<^verbatim>\<open>p.x + p.width / 2\<close>, \<^verbatim>\<open>p.y + p.height / 2\<close>).
\<close>

definition sizeInv :: "Player \<Rightarrow> bool" where
  "sizeInv p \<longleftrightarrow>
     (if isGiant p then width p = 2 * PLAYER_SIZE \<and> height p = 2 * PLAYER_SIZE
      else width p = PLAYER_SIZE \<and> height p = PLAYER_SIZE)"

definition centerX :: "Player \<Rightarrow> real" where
  "centerX p = x p + width p / 2"

definition centerY :: "Player \<Rightarrow> real" where
  "centerY p = y p + height p / 2"

text \<open>A fresh round in which the giant power-up was collected at time 0.\<close>

definition grown :: Engine where
  "grown = activatePowerUp GIANT 0 fresh"

text \<open>No platform of the list carries a shield token.\<close>

definition noShield :: "Platform list \<Rightarrow> bool" where
  "noShield ps \<longleftrightarrow> list_all (\<lambda>p. powerUp p \<noteq> Some SHIELD) ps"

text \<open>
  A round in which the player, left of every platform and without a shield, is about to
  fall below the canvas; the last tick was at time 1500.
\<close>

definition falling :: Engine where
  "falling = fresh\<lparr>player := (resetPlayer YELLOW)\<lparr>x := 10, y := 595, vy := 12\<rparr>,
                   lastTime := 1500\<rparr>"

text \<open>The player falls below the canvas with one shield charge.\<close>

definition shielded :: Engine where
  "shielded = fresh\<lparr>player := (resetPlayer YELLOW)\<lparr>x := 10, y := 630, vy := 20, shieldCount := 1\<rparr>\<rparr>"







text \<open>
  Draws that make the generator choose a moving platform with the smallest range and
  nearly the largest resize factors.
\<close>

definition wideDraws :: Draws where
  "wideDraws =
     (rnd idle)\<lparr>xDraw := 0.9, movingDraw := 0.1, rangeDraw := 0,
                size1Draw := 0.99, size2Draw := 0.99\<rparr>"

text \<open>The round of \<open>climbing\<close> at score 1600, where moving platforms are generated.\<close>

definition highUp :: Engine where
  "highUp = climbing\<lparr>score := 1600\<rparr>"

text \<open>Draws with the smallest and nearly the largest difficulty scale.\<close>

definition narrowDraws :: Draws where
  "narrowDraws = (rnd idle)\<lparr>difficultyDraw := 0\<rparr>"

definition broadDraws :: Draws where
  "broadDraws = (rnd idle)\<lparr>difficultyDraw := 0.99\<rparr>"

text \<open>The round of \<open>climbing\<close> at score 600, just above the shrink threshold.\<close>

definition early :: Engine where
  "early = climbing\<lparr>score := 600\<rparr>"

section \<open>Properties\<close>

lemmas moveHorizontal_defs =
  moveHorizontal_def accelerate_def clampLeft_def clampRight_def

subsection \<open>The pickup test without the square root\<close>

lemma hypot_less_iff: "hypot a b < r \<longleftrightarrow> 0 < r \<and> a * a + b * b < r * r"
proof (cases "0 < r")
  case True
  have "sqrt (a * a + b * b) < sqrt (r * r) \<longleftrightarrow> a * a + b * b < r * r"
    by (rule real_sqrt_less_iff)
  moreover have "sqrt (r * r) = r" using True by simp
  ultimately show ?thesis using True by (simp add: hypot_def)
next
  case False
  have "0 \<le> hypot a b" by (simp add: hypot_def)
  with False show ?thesis by simp
qed

lemma inReach_code [code]:
  "inReach p plat \<longleftrightarrow>
     (let puX = x plat + width plat / 2;
          puY = y plat - POWERUP_SIZE;
          dx = (x p + width p / 2) - puX;
          dy = (y p + height p / 2) - puY;
          collectionRadius = width p * (if isBoosting p then 1.5 else 1.0)
      in 0 < collectionRadius \<and> dx * dx + dy * dy < collectionRadius * collectionRadius)"
  by (simp add: inReach_def Let_def hypot_less_iff)

subsection \<open>Invariants of the platform loop\<close>

lemma interactLoop_fold_inv:
  assumes "P (snd acc)"
    and "\<And>plat e'. plat \<in> set ps \<Longrightarrow> P e' \<Longrightarrow> P (snd (collect now plat (landing plat e')))"
  shows "P (snd (foldl (interactStep now) acc ps))"
  using assms
proof (induction ps arbitrary: acc)
  case Nil
  then show ?case by simp
next
  case (Cons plat ps)
  have "P (snd (interactStep now acc plat))"
    using Cons.prems by (simp add: interactStep_def Let_def)
  then show ?case using Cons.IH Cons.prems(2) by simp
qed

lemma interactLoop_inv:
  assumes "P e"
    and "\<And>plat e'. plat \<in> set ps \<Longrightarrow> P e' \<Longrightarrow> P (snd (collect now plat (landing plat e')))"
  shows "P (snd (interactLoop now ps e))"
  unfolding interactLoop_def
proof (rule interactLoop_fold_inv [where P = P])
  show "P (snd ([], e))" using assms(1) by simp
next
  fix plat e'
  assume "plat \<in> set ps" and "P e'"
  then show "P (snd (collect now plat (landing plat e')))" by (rule assms(2))
qed

lemma interactLoop_fold_all:
  assumes "list_all Q (fst acc)"
    and "\<And>plat e'. plat \<in> set ps \<Longrightarrow> Q (fst (collect now plat e'))"
  shows "list_all Q (fst (foldl (interactStep now) acc ps))"
  using assms
proof (induction ps arbitrary: acc)
  case Nil
  then show ?case by simp
next
  case (Cons plat ps)
  have "list_all Q (fst (interactStep now acc plat))"
    using Cons.prems by (simp add: interactStep_def Let_def)
  then show ?case using Cons.IH Cons.prems(2) by simp
qed

lemma interactLoop_all:
  assumes "\<And>plat e'. plat \<in> set ps \<Longrightarrow> Q (fst (collect now plat e'))"
  shows "list_all Q (fst (interactLoop now ps e))"
  unfolding interactLoop_def
proof (rule interactLoop_fold_all [where Q = Q])
  show "list_all Q (fst ([], e))" by simp
next
  fix plat e'
  assume "plat \<in> set ps"
  then show "Q (fst (collect now plat e'))" by (rule assms)
qed

subsection \<open>The score through a step\<close>

lemma score_emit [simp]: "score (emit ev e) = score e"
  by (simp add: emit_def)

lemma score_activatePowerUp [simp]: "score (activatePowerUp t now e) = score e"
  by (cases t) (simp_all add: activatePowerUp_def Let_def)

lemma score_landing [simp]: "score (landing plat e) = score e"
  by (simp add: landing_def)

lemma score_collect [simp]: "score (snd (collect now plat e)) = score e"
  by (simp add: collect_def split: option.splits)

lemma score_interactLoop [simp]: "score (snd (interactLoop now ps e)) = score e"
  by (rule interactLoop_inv [where P = "\<lambda>e'. score e' = score e"]) simp_all

lemma score_interactPlatforms [simp]: "score (interactPlatforms now e) = score e"
  by (simp add: interactPlatforms_def split_beta)

lemma score_beforeScroll [simp]: "score (beforeScroll inp e) = score e"
  by (simp add: beforeScroll_def atLoop_def Let_def)

lemma score_fallCheck [simp]: "score (fallCheck e) = score e"
  by (simp add: fallCheck_def)

lemma score_scrolling:
  "score (scrolling cs d e) =
     (if y (player e) < CANVAS_HEIGHT / 2
      then score e + scoreGain (CANVAS_HEIGHT / 2 - y (player e)) e else score e)"
  by (simp add: scrolling_def Let_def scoreGain_def)

lemma score_updatePhysics:
  "score (updatePhysics inp e) =
     (if y (player (beforeScroll inp e)) < CANVAS_HEIGHT / 2
      then score e + scoreGain (CANVAS_HEIGHT / 2 - y (player (beforeScroll inp e))) (beforeScroll inp e)
      else score e)"
  by (simp add: updatePhysics_def beforeFallCheck_def score_scrolling)

lemma scanTiers_mem: "scanTiers ts s = Some t \<Longrightarrow> t \<in> set ts"
  by (induction ts) (auto split: if_splits)

lemma getCurrentTier_mem: "getCurrentTier s \<in> set SCORE_TIERS"
proof (cases "scanTiers (rev SCORE_TIERS) s")
  case None
  then show ?thesis by (simp add: getCurrentTier_def SCORE_TIERS_def)
next
  case (Some t)
  then show ?thesis using scanTiers_mem [OF Some] by (simp add: getCurrentTier_def)
qed

lemma tier_multiplier_ge_1: "1 \<le> multiplier (getCurrentTier s)"
  using getCurrentTier_mem [of s] by (auto simp: SCORE_TIERS_def)

lemma scoreGain_nonneg: "0 \<le> diff \<Longrightarrow> 0 \<le> scoreGain diff e"
proof -
  assume d: "0 \<le> diff"
  have "0 \<le> multiplier (getCurrentTier (score e))"
    using tier_multiplier_ge_1 [of "score e"] by linarith
  then have "0 \<le> diff * (if scoreMultiplierActive (player e) then 2 else 1) * multiplier (getCurrentTier (score e))"
    using d by simp
  then show ?thesis by (simp add: scoreGain_def Let_def)
qed

lemma scoreGain_int: "scoreGain diff e \<in> \<int>"
  by (simp add: scoreGain_def Let_def)

lemma score_updatePhysics_mono: "score e \<le> score (updatePhysics inp e)"
  using scoreGain_nonneg [of "CANVAS_HEIGHT / 2 - y (player (beforeScroll inp e))" "beforeScroll inp e"]
  by (simp add: score_updatePhysics)

lemma score_updatePhysics_int: "score e \<in> \<int> \<Longrightarrow> score (updatePhysics inp e) \<in> \<int>"
  by (simp add: score_updatePhysics scoreGain_int)

lemma physicsLoop_inv:
  assumes "P e"
    and step: "\<And>i e. P e \<Longrightarrow> P (updatePhysics i e)"
    and upd: "\<And>e n a. P e \<Longrightarrow> P (e\<lparr>frameCount := n, accumulator := a\<rparr>)"
  shows "P (physicsLoop inp steps e)"
  using assms(1)
proof (induction inp steps e rule: physicsLoop.induct)
  case (1 inp steps e)
  show ?case
  proof (cases "accumulator e \<ge> FIXED_TIMESTEP")
    case False
    then have "physicsLoop inp steps e = e" by (subst physicsLoop.simps) simp
    then show ?thesis using "1.prems" by simp
  next
    case acc: True
    let ?u = "updatePhysics (inp steps) e"
    have pu: "P ?u" using "1.prems" by (rule step)
    have pa: "P (advance ?u)" using upd [OF pu] by (simp add: advance_def)
    show ?thesis
    proof (cases "steps + 1 > 240")
      case True
      then have "physicsLoop inp steps e = (advance ?u)\<lparr>accumulator := 0\<rparr>"
        using acc by (subst physicsLoop.simps) simp
      then show ?thesis using upd [OF pu] by (simp add: advance_def)
    next
      case False
      have eq: "physicsLoop inp steps e = physicsLoop inp (steps + 1) (advance ?u)"
        using acc False by (subst physicsLoop.simps) simp
      have "P (physicsLoop inp (steps + 1) (advance ?u))"
        using "1.IH" acc False pa by simp
      then show ?thesis using eq by simp
    qed
  qed
qed

lemma score_physicsLoop_mono: "score e \<le> score (physicsLoop inp steps e)"
proof -
  have "score e \<le> score e" by simp
  then show ?thesis
  proof (rule physicsLoop_inv [where P = "\<lambda>e'. score e \<le> score e'"])
    fix i and e' :: Engine assume "score e \<le> score e'"
    then show "score e \<le> score (updatePhysics i e')"
      using score_updatePhysics_mono [of e' i] by linarith
  next
    fix e' :: Engine and n a assume "score e \<le> score e'"
    then show "score e \<le> score (e'\<lparr>frameCount := n, accumulator := a\<rparr>)" by simp
  qed
qed

lemma score_physicsLoop_int: "score e \<in> \<int> \<Longrightarrow> score (physicsLoop inp steps e) \<in> \<int>"
  by (rule physicsLoop_inv [where P = "\<lambda>e'. score e' \<in> \<int>"])
     (simp_all add: score_updatePhysics_int)

lemma score_animate_mono: "score e \<le> score (animate gs now inp e)"
proof -
  have "\<And>e'. score e' = score e \<Longrightarrow> score e \<le> score (physicsLoop inp 0 e')"
    using score_physicsLoop_mono by metis
  then show ?thesis by (simp add: animate_def Let_def)
qed

lemma score_animate_int: "score e \<in> \<int> \<Longrightarrow> score (animate gs now inp e) \<in> \<int>"
  by (simp add: animate_def Let_def score_physicsLoop_int)

lemma score_timeouts [simp]:
  "score (multiplierTimeout e) = score e"
  "score (giantTimeout e) = score e"
  "score (boosterTimeout e) = score e"
  by (simp_all add: multiplierTimeout_def giantTimeout_def boosterTimeout_def split: option.splits)

lemma score_resetGame [simp]: "score (resetGame c now e) = 0"
  by (simp add: resetGame_def)

subsection \<open>The tier table\<close>

lemma tier_greatest:
  "0 \<le> s \<Longrightarrow>
     tmin (getCurrentTier s) \<le> s \<and>
     (\<forall>t \<in> set SCORE_TIERS. tmin t \<le> s \<longrightarrow> tmin t \<le> tmin (getCurrentTier s))"
  by (simp add: getCurrentTier_def SCORE_TIERS_def)

lemma tier_default: "s < 0 \<Longrightarrow> getCurrentTier s = hd SCORE_TIERS"
  by (simp add: getCurrentTier_def SCORE_TIERS_def)

lemma tier_2600: "getCurrentTier 2600 = \<lparr>tmin = 2500, multiplier = 2\<rparr>"
  by (simp add: getCurrentTier_def SCORE_TIERS_def)

text \<open>
  C9. On a step that scrolls (the player is above the midline after the platform
  interactions), the score grows by \<open>floor (diff * multiplier * tierMultiplier)\<close>, where
  \<open>diff\<close> is the overshoot above the midline, \<open>multiplier\<close> is 2 when the score multiplier
  is active and 1 otherwise, and the tier is the one of the score before the gain. The tier
  of a score \<open>s \<ge> 0\<close> is the entry of the table with the highest threshold that is at most
  \<open>s\<close>; below every threshold the lowest tier is returned; the tier of 2600 is the one with
  threshold 2500 and multiplier 2.
\<close>

theorem C9_score_gain:
  "(y (player (beforeScroll inp e)) < CANVAS_HEIGHT / 2 \<longrightarrow>
      score (updatePhysics inp e) =
        score e +
        of_int \<lfloor>(CANVAS_HEIGHT / 2 - y (player (beforeScroll inp e))) *
                (if scoreMultiplierActive (player (beforeScroll inp e)) then 2 else 1) *
                multiplier (getCurrentTier (score e))\<rfloor>) \<and>
   getCurrentTier s \<in> set SCORE_TIERS \<and>
   (0 \<le> s \<longrightarrow>
      tmin (getCurrentTier s) \<le> s \<and>
      (\<forall>t \<in> set SCORE_TIERS. tmin t \<le> s \<longrightarrow> tmin t \<le> tmin (getCurrentTier s))) \<and>
   (s < 0 \<longrightarrow> getCurrentTier s = hd SCORE_TIERS) \<and>
   getCurrentTier 2600 = \<lparr>tmin = 2500, multiplier = 2\<rparr>"
proof -
  have "score (updatePhysics inp e) =
          score e +
          of_int \<lfloor>(CANVAS_HEIGHT / 2 - y (player (beforeScroll inp e))) *
                  (if scoreMultiplierActive (player (beforeScroll inp e)) then 2 else 1) *
                  multiplier (getCurrentTier (score e))\<rfloor>"
    if "y (player (beforeScroll inp e)) < CANVAS_HEIGHT / 2"
    using that by (simp add: score_updatePhysics scoreGain_def)
  then show ?thesis
    using getCurrentTier_mem [of s] tier_greatest [of s] tier_default [of s] tier_2600
    by blast
qed

theorem C9_score_gain_witness:
  "y (player (beforeScroll idle climbing)) < CANVAS_HEIGHT / 2 \<and>
   score climbing = 2600 \<and>
   score (updatePhysics idle climbing) = 2600 + of_int \<lfloor>(9 / 2) * 2 * (2::real)\<rfloor> \<and>
   tmin (getCurrentTier 2600) = 2500 \<and>
   multiplier (getCurrentTier 2600) = 2"
proof -
  have a: "y (player (beforeScroll idle climbing)) = 591 / 2" by code_simp
  have b: "scoreMultiplierActive (player (beforeScroll idle climbing))" by code_simp
  have c: "score climbing = 2600" by code_simp
  have d: "y (player (beforeScroll idle climbing)) < CANVAS_HEIGHT / 2"
    by (simp add: a CANVAS_HEIGHT_def)
  show ?thesis
    using C9_score_gain [of idle climbing 2600] a b c d
    by (simp add: CANVAS_HEIGHT_def)
qed

subsection \<open>The score through a run\<close>

lemma exec_score_inv:
  "score e \<in> \<int> \<and> 0 \<le> score e \<Longrightarrow> score (exec e a) \<in> \<int> \<and> 0 \<le> score (exec e a)"
proof (cases a)
  case (Tick gs now inp)
  assume "score e \<in> \<int> \<and> 0 \<le> score e"
  then show ?thesis
    using score_animate_int [of e gs now inp] score_animate_mono [of e gs now inp] Tick
    by simp
qed simp_all

lemma run_score_inv:
  "score e \<in> \<int> \<and> 0 \<le> score e \<Longrightarrow> score (run e as) \<in> \<int> \<and> 0 \<le> score (run e as)"
  unfolding run_def
proof (induction as arbitrary: e)
  case Nil
  then show ?case by simp
next
  case (Cons a as)
  then show ?case using exec_score_inv [of e a] by simp
qed

lemma exec_score_mono: "\<not> isReset a \<Longrightarrow> score e \<le> score (exec e a)"
  by (cases a) (simp_all add: score_animate_mono)

lemma run_score_mono: "\<forall>a \<in> set as. \<not> isReset a \<Longrightarrow> score e \<le> score (run e as)"
  unfolding run_def
proof (induction as arbitrary: e)
  case Nil
  then show ?case by simp
next
  case (Cons a as)
  have "score e \<le> score (exec e a)" using Cons.prems by (simp add: exec_score_mono)
  moreover have "score (exec e a) \<le> score (foldl exec (exec e a) as)"
    using Cons.IH Cons.prems by simp
  ultimately show ?case by simp
qed

text \<open>
  C10. The score is 0 after a reset and, through every sequence of ticks and expiry
  callbacks after it, an integer that is not negative. Within a round (a sequence of
  actions without a reset) it never decreases. A physics step changes it only when the step
  scrolls, and then by \<open>floor (diff * multiplier * tierMultiplier)\<close>, which is not negative;
  the tier multiplier is at least 1. Collecting a power-up and the expiry callbacks leave
  it unchanged.
\<close>

theorem C10_score_monotone:
  "score (resetGame c now e0) = 0 \<and>
   (score (run (resetGame c now e0) as) \<in> \<int> \<and> 0 \<le> score (run (resetGame c now e0) as)) \<and>
   ((\<forall>a \<in> set as. \<not> isReset a) \<longrightarrow> score e \<le> score (run e as)) \<and>
   score (updatePhysics inp e) =
     (if y (player (beforeScroll inp e)) < CANVAS_HEIGHT / 2
      then score e +
           of_int \<lfloor>(CANVAS_HEIGHT / 2 - y (player (beforeScroll inp e))) *
                   (if scoreMultiplierActive (player (beforeScroll inp e)) then 2 else 1) *
                   multiplier (getCurrentTier (score e))\<rfloor>
      else score e) \<and>
   (y (player (beforeScroll inp e)) < CANVAS_HEIGHT / 2 \<longrightarrow>
      0 \<le> \<lfloor>(CANVAS_HEIGHT / 2 - y (player (beforeScroll inp e))) *
             (if scoreMultiplierActive (player (beforeScroll inp e)) then 2 else 1) *
             multiplier (getCurrentTier (score e))\<rfloor>) \<and>
   1 \<le> multiplier (getCurrentTier (score e)) \<and>
   score (activatePowerUp t now e) = score e \<and>
   score (multiplierTimeout e) = score e \<and>
   score (giantTimeout e) = score e \<and>
   score (boosterTimeout e) = score e"
proof -
  let ?r = "resetGame c now e0"
  have r0: "score ?r = 0" by simp
  then have inv: "score (run ?r as) \<in> \<int> \<and> 0 \<le> score (run ?r as)"
    using run_score_inv [of ?r as] by simp
  have mono: "(\<forall>a \<in> set as. \<not> isReset a) \<longrightarrow> score e \<le> score (run e as)"
    using run_score_mono by blast
  have step: "score (updatePhysics inp e) =
     (if y (player (beforeScroll inp e)) < CANVAS_HEIGHT / 2
      then score e +
           of_int \<lfloor>(CANVAS_HEIGHT / 2 - y (player (beforeScroll inp e))) *
                   (if scoreMultiplierActive (player (beforeScroll inp e)) then 2 else 1) *
                   multiplier (getCurrentTier (score e))\<rfloor>
      else score e)"
    by (simp add: score_updatePhysics scoreGain_def)
  have gain: "0 \<le> \<lfloor>(CANVAS_HEIGHT / 2 - y (player (beforeScroll inp e))) *
             (if scoreMultiplierActive (player (beforeScroll inp e)) then 2 else 1) *
             multiplier (getCurrentTier (score e))\<rfloor>"
    if "y (player (beforeScroll inp e)) < CANVAS_HEIGHT / 2"
  proof -
    have "0 \<le> scoreGain (CANVAS_HEIGHT / 2 - y (player (beforeScroll inp e))) (beforeScroll inp e)"
      using that by (intro scoreGain_nonneg) simp
    then show ?thesis by (simp add: scoreGain_def)
  qed
  have tier: "1 \<le> multiplier (getCurrentTier (score e))"
    by (rule tier_multiplier_ge_1)
  have pu: "score (activatePowerUp t now e) = score e" by simp
  have t1: "score (multiplierTimeout e) = score e" by simp
  have t2: "score (giantTimeout e) = score e" by simp
  have t3: "score (boosterTimeout e) = score e" by simp
  from r0 inv mono step gain tier pu t1 t2 t3 show ?thesis by blast
qed



theorem C10_score_monotone_witness:
  "list_all (\<lambda>a. \<not> isReset a) [Tick PLAYING 1500 (\<lambda>k. idle), Tick PLAYING 1540 (\<lambda>k. idle)] \<and>
   score climbing \<le>
     score (run climbing [Tick PLAYING 1500 (\<lambda>k. idle), Tick PLAYING 1540 (\<lambda>k. idle)]) \<and>
   0 \<le> score (run fresh [Tick PLAYING 1500 (\<lambda>k. idle), Tick PLAYING 1540 (\<lambda>k. idle)]) \<and>
   y (player (beforeScroll idle climbing)) < CANVAS_HEIGHT / 2 \<and>
   score (updatePhysics idle climbing) = 2618"
proof -
  let ?as = "[Tick PLAYING 1500 (\<lambda>k. idle), Tick PLAYING 1540 (\<lambda>k. idle)]"
  have h: "\<forall>a \<in> set ?as. \<not> isReset a" by simp
  have a: "y (player (beforeScroll idle climbing)) = 591 / 2" by code_simp
  have b: "scoreMultiplierActive (player (beforeScroll idle climbing))" by code_simp
  have c: "score climbing = 2600" by code_simp
  have d: "multiplier (getCurrentTier 2600) = 2" by (simp add: tier_2600)
  show ?thesis
    using C10_score_monotone [of YELLOW 0 "initialEngine YELLOW" ?as climbing idle SHIELD]
      h a b c d
    by (simp add: CANVAS_HEIGHT_def fresh_def)
qed

subsection \<open>Timed power-ups\<close>

lemma extended_active:
  "0 \<le> now \<Longrightarrow> 0 < r \<Longrightarrow> extended True (Some (now + r)) now d = d + r"
  by (simp add: extended_def)

lemma extended_inactive: "extended False t now d = d"
  by (simp add: extended_def split: option.splits)

text \<open>
  C3. With the clock at \<open>now \<ge> 0\<close> (\<^verbatim>\<open>performance.now()\<close> is never negative), activating a
  timed power-up that is already active with remaining time \<open>r > 0\<close> (its end time is
  \<open>now + r\<close>) keeps it active and sets the end time to \<open>now + duration + r\<close>, with the
  durations 10000 (score multiplier), 5000 (giant) and 3000 (booster). Activating the score
  multiplier at time 0 while inactive and again at time 4000 gives the end time 20000.
\<close>

theorem C3_additive_refresh:
  "(0 \<le> now \<and> 0 < r \<longrightarrow>
      (scoreMultiplierActive (player e) \<and> scoreMultiplierEndTime (player e) = Some (now + r) \<longrightarrow>
         scoreMultiplierActive (player (activatePowerUp SCORE_MULTIPLIER now e)) \<and>
         scoreMultiplierEndTime (player (activatePowerUp SCORE_MULTIPLIER now e)) =
           Some (now + 10000 + r)) \<and>
      (isGiant (player e) \<and> giantEndTime (player e) = Some (now + r) \<longrightarrow>
         isGiant (player (activatePowerUp GIANT now e)) \<and>
         giantEndTime (player (activatePowerUp GIANT now e)) = Some (now + 5000 + r)) \<and>
      (isBoosting (player e) \<and> boosterEndTime (player e) = Some (now + r) \<longrightarrow>
         isBoosting (player (activatePowerUp BOOSTER now e)) \<and>
         boosterEndTime (player (activatePowerUp BOOSTER now e)) = Some (now + 3000 + r))) \<and>
   (\<not> scoreMultiplierActive (player e) \<longrightarrow>
      scoreMultiplierEndTime (player (activatePowerUp SCORE_MULTIPLIER 0 e)) = Some 10000 \<and>
      scoreMultiplierEndTime
        (player (activatePowerUp SCORE_MULTIPLIER 4000 (activatePowerUp SCORE_MULTIPLIER 0 e))) =
        Some 20000)"
proof -
  have m: "scoreMultiplierActive (player (activatePowerUp SCORE_MULTIPLIER now e)) \<and>
           scoreMultiplierEndTime (player (activatePowerUp SCORE_MULTIPLIER now e)) =
             Some (now + 10000 + r)"
    if "0 \<le> now" "0 < r" "scoreMultiplierActive (player e)"
       "scoreMultiplierEndTime (player e) = Some (now + r)"
    using that
    by (simp add: activatePowerUp_def Let_def emit_def extended_active POWERUP_DURATION_def)
  have g: "isGiant (player (activatePowerUp GIANT now e)) \<and>
           giantEndTime (player (activatePowerUp GIANT now e)) = Some (now + 5000 + r)"
    if "0 \<le> now" "0 < r" "isGiant (player e)" "giantEndTime (player e) = Some (now + r)"
    using that
    by (simp add: activatePowerUp_def Let_def emit_def extended_active grow_def)
  have b: "isBoosting (player (activatePowerUp BOOSTER now e)) \<and>
           boosterEndTime (player (activatePowerUp BOOSTER now e)) = Some (now + 3000 + r)"
    if "0 \<le> now" "0 < r" "isBoosting (player e)" "boosterEndTime (player e) = Some (now + r)"
    using that
    by (simp add: activatePowerUp_def Let_def emit_def extended_active)
  have s: "scoreMultiplierEndTime (player (activatePowerUp SCORE_MULTIPLIER 0 e)) = Some 10000 \<and>
      scoreMultiplierEndTime
        (player (activatePowerUp SCORE_MULTIPLIER 4000 (activatePowerUp SCORE_MULTIPLIER 0 e))) =
        Some 20000"
    if "\<not> scoreMultiplierActive (player e)"
    using that
    by (simp add: activatePowerUp_def Let_def emit_def extended_def POWERUP_DURATION_def
        split: option.splits)
  from m g b s show ?thesis by blast
qed

theorem C3_additive_refresh_witness:
  "(0::real) \<le> 4000 \<and> (0::real) < 6000 \<and>
   scoreMultiplierActive (player starred) \<and>
   scoreMultiplierEndTime (player starred) = Some (4000 + 6000) \<and>
   scoreMultiplierEndTime (player (activatePowerUp SCORE_MULTIPLIER 4000 starred)) = Some 20000 \<and>
   \<not> scoreMultiplierActive (player fresh) \<and>
   scoreMultiplierEndTime
     (player (activatePowerUp SCORE_MULTIPLIER 4000 (activatePowerUp SCORE_MULTIPLIER 0 fresh))) =
     Some 20000"
proof -
  have a: "scoreMultiplierActive (player starred)" by code_simp
  have b: "scoreMultiplierEndTime (player starred) = Some (4000 + 6000)" by code_simp
  have c: "\<not> scoreMultiplierActive (player fresh)" by code_simp
  show ?thesis
    using C3_additive_refresh [of 4000 6000 starred] C3_additive_refresh [of 0 1 fresh] a b c
    by simp
qed

subsection \<open>The giant power-up\<close>

lemma sizeInv_moveHorizontal [simp]: "sizeInv (moveHorizontal ks p) = sizeInv p"
  by (simp add: moveHorizontal_defs sizeInv_def Let_def)

lemma sizeInv_moveVertical [simp]: "sizeInv (moveVertical p) = sizeInv p"
  by (simp add: moveVertical_def sizeInv_def Let_def)

lemma sizeInv_bounce [simp]: "sizeInv (bounce plat p) = sizeInv p"
  by (simp add: bounce_def sizeInv_def Let_def)

lemma sizeInv_emit [simp]: "sizeInv (player (emit ev e)) = sizeInv (player e)"
  by (simp add: emit_def)

lemma sizeInv_activatePowerUp:
  "sizeInv (player e) \<Longrightarrow> sizeInv (player (activatePowerUp t now e))"
  by (cases t) (simp_all add: activatePowerUp_def Let_def emit_def sizeInv_def grow_def)

lemma sizeInv_landing: "sizeInv (player e) \<Longrightarrow> sizeInv (player (landing plat e))"
  by (simp add: landing_def)

lemma sizeInv_collect:
  "sizeInv (player e) \<Longrightarrow> sizeInv (player (snd (collect now plat e)))"
  by (simp add: collect_def sizeInv_activatePowerUp split: option.splits)

lemma sizeInv_interactLoop:
  assumes "sizeInv (player e)"
  shows "sizeInv (player (snd (interactLoop now ps e)))"
  using assms
  by (rule interactLoop_inv [where P = "\<lambda>e'. sizeInv (player e')"])
     (intro sizeInv_collect sizeInv_landing)

lemma sizeInv_beforeScroll:
  "sizeInv (player e) \<Longrightarrow> sizeInv (player (beforeScroll inp e))"
proof -
  assume a: "sizeInv (player e)"
  let ?e2 = "e\<lparr>platforms := map movePlatform (platforms e),
               player := moveVertical (moveHorizontal (keysPressed inp) (player e))\<rparr>"
  have "sizeInv (player ?e2)" using a by simp
  then have "sizeInv (player (snd (interactLoop (clock inp) (platforms ?e2) ?e2)))"
    by (rule sizeInv_interactLoop)
  then show ?thesis
    by (simp add: beforeScroll_def atLoop_def interactPlatforms_def Let_def split_beta)
qed

lemma sizeInv_scrolling: "sizeInv (player (scrolling cs d e)) = sizeInv (player e)"
  by (simp add: scrolling_def Let_def emit_def sizeInv_def)

lemma sizeInv_fallCheck: "sizeInv (player (fallCheck e)) = sizeInv (player e)"
  by (simp add: fallCheck_def emit_def sizeInv_def)

lemma sizeInv_updatePhysics:
  "sizeInv (player e) \<Longrightarrow> sizeInv (player (updatePhysics inp e))"
  by (simp add: updatePhysics_def beforeFallCheck_def sizeInv_fallCheck sizeInv_scrolling
      sizeInv_beforeScroll)

lemma sizeInv_physicsLoop:
  "sizeInv (player e) \<Longrightarrow> sizeInv (player (physicsLoop inp steps e))"
  by (rule physicsLoop_inv [where P = "\<lambda>e'. sizeInv (player e')"])
     (simp_all add: sizeInv_updatePhysics)

lemma sizeInv_animate:
  "sizeInv (player e) \<Longrightarrow> sizeInv (player (animate gs now inp e))"
  by (simp add: animate_def Let_def sizeInv_physicsLoop)

lemma sizeInv_resetGame: "sizeInv (player (resetGame c now e))"
  by (simp add: resetGame_def resetPlayer_def sizeInv_def Let_def emit_def)

lemma sizeInv_timeouts:
  "sizeInv (player e) \<Longrightarrow> sizeInv (player (multiplierTimeout e))"
  "sizeInv (player e) \<Longrightarrow> sizeInv (player (giantTimeout e))"
  "sizeInv (player e) \<Longrightarrow> sizeInv (player (boosterTimeout e))"
  by (simp_all add: multiplierTimeout_def giantTimeout_def boosterTimeout_def sizeInv_def
      shrink_def Let_def split: option.splits)

lemma sizeInv_exec: "sizeInv (player e) \<Longrightarrow> sizeInv (player (exec e a))"
  by (cases a) (simp_all add: sizeInv_resetGame sizeInv_animate sizeInv_timeouts)

lemma sizeInv_run: "sizeInv (player e) \<Longrightarrow> sizeInv (player (run e as))"
  unfolding run_def
  by (induction as arbitrary: e) (simp_all add: sizeInv_exec)

lemma sizeInv_initial: "sizeInv (player (initialEngine c))"
  by (simp add: initialEngine_def sizeInv_def)

lemma grow_geometry:
  "\<not> isGiant (player e) \<Longrightarrow> sizeInv (player e) \<Longrightarrow>
     centerX (player (activatePowerUp GIANT now e)) = centerX (player e) \<and>
     y (player (activatePowerUp GIANT now e)) + height (player (activatePowerUp GIANT now e)) =
       y (player e) + height (player e) \<and>
     centerY (player (activatePowerUp GIANT now e)) = centerY (player e) - PLAYER_SIZE / 2"
  by (simp add: activatePowerUp_def Let_def emit_def grow_def sizeInv_def centerX_def
      centerY_def PLAYER_SIZE_def)

lemma shrink_geometry:
  "isGiant (player e) \<Longrightarrow> sizeInv (player e) \<Longrightarrow> giantTimer e \<noteq> None \<Longrightarrow>
     \<not> isGiant (player (giantTimeout e)) \<and>
     centerX (player (giantTimeout e)) = centerX (player e) \<and>
     y (player (giantTimeout e)) + height (player (giantTimeout e)) =
       y (player e) + height (player e) \<and>
     centerY (player (giantTimeout e)) = centerY (player e) + PLAYER_SIZE / 2"
  by (auto simp add: giantTimeout_def Let_def shrink_def sizeInv_def centerX_def
      centerY_def PLAYER_SIZE_def)

lemma regrow_geometry:
  "isGiant (player e) \<Longrightarrow>
     x (player (activatePowerUp GIANT now e)) = x (player e) \<and>
     y (player (activatePowerUp GIANT now e)) = y (player e) \<and>
     width (player (activatePowerUp GIANT now e)) = width (player e) \<and>
     height (player (activatePowerUp GIANT now e)) = height (player e)"
  by (simp add: activatePowerUp_def Let_def emit_def grow_def)

lemma roundtrip_geometry:
  "\<not> isGiant (player e) \<Longrightarrow> sizeInv (player e) \<Longrightarrow>
     x (player (giantTimeout (activatePowerUp GIANT now e))) = x (player e) \<and>
     y (player (giantTimeout (activatePowerUp GIANT now e))) = y (player e) \<and>
     width (player (giantTimeout (activatePowerUp GIANT now e))) = PLAYER_SIZE \<and>
     height (player (giantTimeout (activatePowerUp GIANT now e))) = PLAYER_SIZE"
  by (simp add: giantTimeout_def activatePowerUp_def Let_def emit_def grow_def shrink_def
      sizeInv_def PLAYER_SIZE_def)



text \<open>
  C6, as stated, fails: growing moves the centre of the player. In a fresh round the
  centre is at height 470 before the giant power-up is collected and at 450 after.
\<close>

theorem C6_center_counterexample:
  "\<not> isGiant (player fresh) \<and> isGiant (player (activatePowerUp GIANT 0 fresh)) \<and>
   centerY (player fresh) = 470 \<and>
   centerY (player (activatePowerUp GIANT 0 fresh)) = 450 \<and>
   centerY (player (activatePowerUp GIANT 0 fresh)) \<noteq> centerY (player fresh)"
  by code_simp

text \<open>
  C6, amended. Through every run from the initial engine the width and height of the
  player are \<open>PLAYER_SIZE\<close> while it is not giant and \<open>2 * PLAYER_SIZE\<close> while it is. The
  correction at the grow transition keeps the horizontal centre and the bottom edge
  \<open>y + height\<close> and moves the vertical centre up by \<open>PLAYER_SIZE / 2\<close>; the expiry callback
  does the inverse. Collecting the power-up again while giant leaves position and size
  unchanged, and growing followed by expiry restores \<open>x\<close>, \<open>y\<close> and the size \<open>PLAYER_SIZE\<close>.
\<close>

theorem C6_giant_size:
  "sizeInv (player (run (initialEngine c) as)) \<and>
   (\<not> isGiant (player e) \<and> sizeInv (player e) \<longrightarrow>
      isGiant (player (activatePowerUp GIANT now e)) \<and>
      centerX (player (activatePowerUp GIANT now e)) = centerX (player e) \<and>
      y (player (activatePowerUp GIANT now e)) + height (player (activatePowerUp GIANT now e)) =
        y (player e) + height (player e) \<and>
      centerY (player (activatePowerUp GIANT now e)) = centerY (player e) - PLAYER_SIZE / 2) \<and>
   (isGiant (player e) \<and> sizeInv (player e) \<and> giantTimer e \<noteq> None \<longrightarrow>
      \<not> isGiant (player (giantTimeout e)) \<and>
      centerX (player (giantTimeout e)) = centerX (player e) \<and>
      y (player (giantTimeout e)) + height (player (giantTimeout e)) =
        y (player e) + height (player e) \<and>
      centerY (player (giantTimeout e)) = centerY (player e) + PLAYER_SIZE / 2) \<and>
   (isGiant (player e) \<longrightarrow>
      x (player (activatePowerUp GIANT now e)) = x (player e) \<and>
      y (player (activatePowerUp GIANT now e)) = y (player e) \<and>
      width (player (activatePowerUp GIANT now e)) = width (player e) \<and>
      height (player (activatePowerUp GIANT now e)) = height (player e)) \<and>
   (\<not> isGiant (player e) \<and> sizeInv (player e) \<longrightarrow>
      x (player (giantTimeout (activatePowerUp GIANT now e))) = x (player e) \<and>
      y (player (giantTimeout (activatePowerUp GIANT now e))) = y (player e) \<and>
      width (player (giantTimeout (activatePowerUp GIANT now e))) = PLAYER_SIZE \<and>
      height (player (giantTimeout (activatePowerUp GIANT now e))) = PLAYER_SIZE)"
proof -
  have inv: "sizeInv (player (run (initialEngine c) as))"
    by (intro sizeInv_run sizeInv_initial)
  have g: "isGiant (player (activatePowerUp GIANT now e))"
    by (simp add: activatePowerUp_def Let_def emit_def)
  from inv g grow_geometry [of e now] shrink_geometry [of e] regrow_geometry [of e now]
    roundtrip_geometry [of e now]
  show ?thesis by blast
qed

theorem C6_giant_size_witness:
  "sizeInv (player (run (initialEngine YELLOW) [Reset YELLOW 0, Tick PLAYING 1500 (\<lambda>k. idle)])) \<and>
   \<not> isGiant (player fresh) \<and> sizeInv (player fresh) \<and>
   centerX (player (activatePowerUp GIANT 0 fresh)) = centerX (player fresh) \<and>
   centerY (player (activatePowerUp GIANT 0 fresh)) = centerY (player fresh) - PLAYER_SIZE / 2 \<and>
   x (player (giantTimeout (activatePowerUp GIANT 0 fresh))) = x (player fresh) \<and>
   y (player (giantTimeout (activatePowerUp GIANT 0 fresh))) = y (player fresh) \<and>
   isGiant (player grown) \<and> sizeInv (player grown) \<and> giantTimer grown \<noteq> None \<and>
   centerX (player (giantTimeout grown)) = centerX (player grown) \<and>
   centerY (player (giantTimeout grown)) = centerY (player grown) + PLAYER_SIZE / 2 \<and>
   width (player (activatePowerUp GIANT 1000 grown)) = width (player grown)"
proof -
  have a: "\<not> isGiant (player fresh)" by code_simp
  have b: "sizeInv (player fresh)" by code_simp
  have c: "isGiant (player grown)" by code_simp
  have d: "sizeInv (player grown)" by code_simp
  have e: "giantTimer grown \<noteq> None" by code_simp
  show ?thesis
    using C6_giant_size [of YELLOW "[Reset YELLOW 0, Tick PLAYING 1500 (\<lambda>k. idle)]" fresh 0]
      C6_giant_size [of YELLOW "[]" grown 1000] a b c d e
    by simp
qed

subsection \<open>The round-end callback and the shield\<close>

lemma gameOverCalls_emit:
  "gameOverCalls (emit ev e) = gameOverCalls e + (if ev = OnGameOver then 1 else 0)"
  by (simp add: gameOverCalls_def emit_def)

lemma gameOverCalls_activatePowerUp [simp]:
  "gameOverCalls (activatePowerUp t now e) = gameOverCalls e"
  by (cases t) (simp_all add: activatePowerUp_def Let_def gameOverCalls_def emit_def)

lemma gameOverCalls_landing [simp]: "gameOverCalls (landing plat e) = gameOverCalls e"
  by (simp add: landing_def gameOverCalls_def emit_def)

lemma gameOverCalls_collect [simp]:
  "gameOverCalls (snd (collect now plat e)) = gameOverCalls e"
  by (simp add: collect_def split: option.splits)

lemma gameOverCalls_interactLoop [simp]:
  "gameOverCalls (snd (interactLoop now ps e)) = gameOverCalls e"
  by (rule interactLoop_inv [where P = "\<lambda>e'. gameOverCalls e' = gameOverCalls e"]) simp_all

lemma gameOverCalls_beforeScroll [simp]:
  "gameOverCalls (beforeScroll inp e) = gameOverCalls e"
proof -
  have "\<And>e1 ps. gameOverCalls (e1\<lparr>platforms := ps\<rparr>) = gameOverCalls e1"
    by (simp add: gameOverCalls_def)
  moreover have "\<And>e1 p. gameOverCalls (e1\<lparr>player := p\<rparr>) = gameOverCalls e1"
    by (simp add: gameOverCalls_def)
  ultimately show ?thesis
    by (simp add: beforeScroll_def atLoop_def interactPlatforms_def Let_def split_beta)
qed

lemma gameOverCalls_scrolling [simp]:
  "gameOverCalls (scrolling cs d e) = gameOverCalls e"
  by (simp add: scrolling_def Let_def gameOverCalls_def emit_def)

lemma gameOverCalls_beforeFallCheck [simp]:
  "gameOverCalls (beforeFallCheck inp e) = gameOverCalls e"
  by (simp add: beforeFallCheck_def)

lemma gameOverCalls_fallCheck:
  "gameOverCalls (fallCheck e) =
     (if y (player e) > CANVAS_HEIGHT \<and> shieldCount (player e) \<le> 0
      then gameOverCalls e + 1 else gameOverCalls e)"
  by (simp add: fallCheck_def gameOverCalls_def emit_def)

lemma y_fallCheck [simp]: "y (player (fallCheck e)) = y (player e)"
  by (simp add: fallCheck_def emit_def)

lemma y_updatePhysics: "y (player (updatePhysics inp e)) = y (player (beforeFallCheck inp e))"
  by (simp add: updatePhysics_def)

lemma gameOverCalls_updatePhysics:
  "gameOverCalls (updatePhysics inp e) =
     (if y (player (updatePhysics inp e)) > CANVAS_HEIGHT \<and>
         shieldCount (player (beforeFallCheck inp e)) \<le> 0
      then gameOverCalls e + 1 else gameOverCalls e)"
  by (simp add: updatePhysics_def gameOverCalls_fallCheck)

lemma fall_through_no_scroll:
  "y (player (updatePhysics inp e)) > CANVAS_HEIGHT \<Longrightarrow>
     beforeFallCheck inp e = beforeScroll inp e"
  by (simp add: y_updatePhysics beforeFallCheck_def scrolling_def Let_def emit_def
      CANVAS_HEIGHT_def split: if_splits)

subsection \<open>Player fields through the platform interactions\<close>

lemma base_activatePowerUp [simp]:
  "baseJumpStrength (player (activatePowerUp t now e)) = baseJumpStrength (player e)"
  by (cases t) (simp_all add: activatePowerUp_def Let_def emit_def grow_def)

lemma base_landing [simp]:
  "baseJumpStrength (player (landing plat e)) = baseJumpStrength (player e)"
  by (simp add: landing_def emit_def bounce_def Let_def)

lemma base_collect [simp]:
  "baseJumpStrength (player (snd (collect now plat e))) = baseJumpStrength (player e)"
  by (simp add: collect_def split: option.splits)

lemma base_interactLoop [simp]:
  "baseJumpStrength (player (snd (interactLoop now ps e))) = baseJumpStrength (player e)"
  by (rule interactLoop_inv
        [where P = "\<lambda>e'. baseJumpStrength (player e') = baseJumpStrength (player e)"])
     simp_all

lemma base_beforeScroll [simp]:
  "baseJumpStrength (player (beforeScroll inp e)) = baseJumpStrength (player e)"
  by (simp add: beforeScroll_def atLoop_def interactPlatforms_def Let_def split_beta
      moveVertical_def moveHorizontal_defs)

lemma shield_activatePowerUp:
  "shieldCount (player (activatePowerUp t now e)) =
     (if t = SHIELD then 1 else shieldCount (player e))"
  by (cases t) (simp_all add: activatePowerUp_def Let_def emit_def grow_def)

lemma shield_landing [simp]:
  "shieldCount (player (landing plat e)) = shieldCount (player e)"
  by (simp add: landing_def emit_def bounce_def Let_def)

lemma shield_collect_one:
  "shieldCount (player e) = 1 \<Longrightarrow> shieldCount (player (snd (collect now plat e))) = 1"
  by (simp add: collect_def shield_activatePowerUp split: option.splits)

lemma shield_collect_none:
  "powerUp plat \<noteq> Some SHIELD \<Longrightarrow>
     shieldCount (player (snd (collect now plat e))) = shieldCount (player e)"
  by (simp add: collect_def shield_activatePowerUp split: option.splits)

lemma shield_interactLoop_one:
  assumes "shieldCount (player e) = 1"
  shows "shieldCount (player (snd (interactLoop now ps e))) = 1"
  using assms
  by (rule interactLoop_inv [where P = "\<lambda>e'. shieldCount (player e') = 1"])
     (simp add: shield_collect_one)

lemma shield_interactLoop_none:
  assumes "noShield ps"
  shows "shieldCount (player (snd (interactLoop now ps e))) = shieldCount (player e)"
proof (rule interactLoop_inv [where P = "\<lambda>e'. shieldCount (player e') = shieldCount (player e)"])
  show "shieldCount (player e) = shieldCount (player e)" by simp
next
  fix plat and e' :: Engine
  assume "plat \<in> set ps" and eq: "shieldCount (player e') = shieldCount (player e)"
  then have "powerUp plat \<noteq> Some SHIELD"
    using assms by (simp add: noShield_def list_all_iff)
  then show "shieldCount (player (snd (collect now plat (landing plat e')))) =
             shieldCount (player e)"
    using eq by (simp add: shield_collect_none)
qed

lemma powerUp_movePlatform [simp]: "powerUp (movePlatform p) = powerUp p"
  by (simp add: movePlatform_def Let_def split: option.splits bool.splits)

lemma noShield_map_movePlatform [simp]: "noShield (map movePlatform ps) = noShield ps"
  by (simp add: noShield_def list_all_iff)

lemma powerUp_collect:
  "powerUp (fst (collect now plat e)) = None \<or> powerUp (fst (collect now plat e)) = powerUp plat"
  by (simp add: collect_def split: option.splits)

lemma noShield_interactLoop:
  assumes "noShield ps"
  shows "noShield (fst (interactLoop now ps e))"
  unfolding noShield_def
proof (rule interactLoop_all)
  fix plat e'
  assume "plat \<in> set ps"
  then have "powerUp plat \<noteq> Some SHIELD"
    using assms by (simp add: noShield_def list_all_iff)
  then show "powerUp (fst (collect now plat e')) \<noteq> Some SHIELD"
    using powerUp_collect [of now plat e'] by auto
qed

lemma shield_beforeScroll_one:
  "shieldCount (player e) = 1 \<Longrightarrow> shieldCount (player (beforeScroll inp e)) = 1"
  by (simp add: beforeScroll_def atLoop_def interactPlatforms_def Let_def split_beta
      shield_interactLoop_one moveVertical_def moveHorizontal_defs)

lemma shield_beforeScroll_none:
  "noShield (platforms e) \<Longrightarrow>
     shieldCount (player (beforeScroll inp e)) = shieldCount (player e)"
  by (simp add: beforeScroll_def atLoop_def interactPlatforms_def Let_def split_beta
      shield_interactLoop_none moveVertical_def moveHorizontal_defs)

lemma noShield_beforeScroll:
  "noShield (platforms e) \<Longrightarrow> noShield (platforms (beforeScroll inp e))"
  by (simp add: beforeScroll_def atLoop_def interactPlatforms_def Let_def split_beta noShield_interactLoop)

lemma platforms_fallCheck [simp]: "platforms (fallCheck e) = platforms e"
  by (simp add: fallCheck_def emit_def)

lemma shield_step_consumed:
  assumes "shieldCount (player e) = 1" and "y (player (updatePhysics inp e)) > CANVAS_HEIGHT"
  shows "shieldCount (player (updatePhysics inp e)) = 0 \<and>
         vy (player (updatePhysics inp e)) = baseJumpStrength (player e) * 1.5 \<and>
         gameOverCalls (updatePhysics inp e) = gameOverCalls e"
proof -
  have eq: "beforeFallCheck inp e = beforeScroll inp e"
    using assms(2) by (rule fall_through_no_scroll)
  have s: "shieldCount (player (beforeScroll inp e)) = 1"
    using assms(1) by (rule shield_beforeScroll_one)
  have yy: "y (player (beforeScroll inp e)) > CANVAS_HEIGHT"
    using assms(2) eq by (simp add: y_updatePhysics)
  have b: "baseJumpStrength (player (beforeScroll inp e)) = baseJumpStrength (player e)"
    by simp
  have g: "gameOverCalls (beforeScroll inp e) = gameOverCalls e" by simp
  show ?thesis
    using s yy b g
    by (simp add: updatePhysics_def eq fallCheck_def emit_def gameOverCalls_def)
qed

lemma shield_step_absent:
  assumes "shieldCount (player e) = 0" and "noShield (platforms e)"
    and "y (player (updatePhysics inp e)) > CANVAS_HEIGHT"
  shows "gameOverCalls (updatePhysics inp e) = gameOverCalls e + 1 \<and>
         shieldCount (player (updatePhysics inp e)) = 0"
proof -
  have eq: "beforeFallCheck inp e = beforeScroll inp e"
    using assms(3) by (rule fall_through_no_scroll)
  have s: "shieldCount (player (beforeScroll inp e)) = 0"
    using assms(1,2) by (simp add: shield_beforeScroll_none)
  have yy: "y (player (beforeScroll inp e)) > CANVAS_HEIGHT"
    using assms(3) eq by (simp add: y_updatePhysics)
  have g: "gameOverCalls (beforeScroll inp e) = gameOverCalls e" by simp
  show ?thesis
    using s yy g
    by (simp add: updatePhysics_def eq fallCheck_def emit_def gameOverCalls_def)
qed

lemma noShield_step:
  assumes "noShield (platforms e)" and "y (player (updatePhysics inp e)) > CANVAS_HEIGHT"
  shows "noShield (platforms (updatePhysics inp e))"
proof -
  have eq: "beforeFallCheck inp e = beforeScroll inp e"
    using assms(2) by (rule fall_through_no_scroll)
  show ?thesis using assms(1) by (simp add: updatePhysics_def eq noShield_beforeScroll)
qed


text \<open>
  C2. A step is a fall-through event when the player's \<open>y\<close> exceeds the height of the
  canvas at the fall-through check; the check does not change \<open>y\<close>, so this is read on the
  state after the step. Entering such a step with \<open>shieldCount = 1\<close>, the step leaves
  \<open>shieldCount = 0\<close> and \<open>vy = 1.5 * baseJumpStrength\<close> and does not invoke the round-end
  callback. A fall-through step at whose check \<open>shieldCount\<close> is 0 invokes the callback:
  so does every fall-through step entered with \<open>shieldCount = 0\<close>, and the fall-through
  step that follows the consumption of the shield, when no platform carries a shield token
  to collect again.
\<close>

theorem C2_shield_single_use:
  "(shieldCount (player e) = 1 \<and> y (player (updatePhysics inp e)) > CANVAS_HEIGHT \<longrightarrow>
      shieldCount (player (updatePhysics inp e)) = 0 \<and>
      vy (player (updatePhysics inp e)) = baseJumpStrength (player e) * 1.5 \<and>
      gameOverCalls (updatePhysics inp e) = gameOverCalls e) \<and>
   (shieldCount (player e) = 1 \<and> noShield (platforms e) \<and>
    y (player (updatePhysics inp e)) > CANVAS_HEIGHT \<and>
    y (player (updatePhysics inp2 (updatePhysics inp e))) > CANVAS_HEIGHT \<longrightarrow>
      gameOverCalls (updatePhysics inp2 (updatePhysics inp e)) = gameOverCalls e + 1) \<and>
   (shieldCount (player e) = 0 \<and> noShield (platforms e) \<and>
    y (player (updatePhysics inp e)) > CANVAS_HEIGHT \<longrightarrow>
      gameOverCalls (updatePhysics inp e) = gameOverCalls e + 1) \<and>
   (shieldCount (player (beforeFallCheck inp e)) = 0 \<and>
    y (player (updatePhysics inp e)) > CANVAS_HEIGHT \<longrightarrow>
      gameOverCalls (updatePhysics inp e) = gameOverCalls e + 1)"
proof -
  have check: "gameOverCalls (updatePhysics inp e) = gameOverCalls e + 1"
    if "shieldCount (player (beforeFallCheck inp e)) = 0"
      and "y (player (updatePhysics inp e)) > CANVAS_HEIGHT"
    using that by (simp add: gameOverCalls_updatePhysics)
  have two: "gameOverCalls (updatePhysics inp2 (updatePhysics inp e)) = gameOverCalls e + 1"
    if a: "shieldCount (player e) = 1" and b: "noShield (platforms e)"
      and c: "y (player (updatePhysics inp e)) > CANVAS_HEIGHT"
      and d: "y (player (updatePhysics inp2 (updatePhysics inp e))) > CANVAS_HEIGHT"
  proof -
    let ?e1 = "updatePhysics inp e"
    have "shieldCount (player ?e1) = 0" and g: "gameOverCalls ?e1 = gameOverCalls e"
      using shield_step_consumed [OF a c] by simp_all
    moreover have "noShield (platforms ?e1)" using b c by (rule noShield_step)
    ultimately have "gameOverCalls (updatePhysics inp2 ?e1) = gameOverCalls ?e1 + 1"
      using d shield_step_absent [of ?e1 inp2] by simp
    then show ?thesis using g by simp
  qed
  from two check shield_step_consumed [of e inp] shield_step_absent [of e inp]
  show ?thesis by blast
qed

theorem C2_shield_single_use_witness:
  "shieldCount (player shielded) = 1 \<and> noShield (platforms shielded) \<and>
   y (player (updatePhysics idle shielded)) > CANVAS_HEIGHT \<and>
   y (player (updatePhysics idle (updatePhysics idle shielded))) > CANVAS_HEIGHT \<and>
   shieldCount (player (updatePhysics idle shielded)) = 0 \<and>
   vy (player (updatePhysics idle shielded)) = - 15 * 1.5 \<and>
   gameOverCalls (updatePhysics idle shielded) = 0 \<and>
   gameOverCalls (updatePhysics idle (updatePhysics idle shielded)) = 1 \<and>
   shieldCount (player falling) = 0 \<and> noShield (platforms falling) \<and>
   y (player (updatePhysics idle falling)) > CANVAS_HEIGHT \<and>
   shieldCount (player (beforeFallCheck idle falling)) = 0 \<and>
   gameOverCalls (updatePhysics idle falling) = 1"
proof -
  have g: "shieldCount (player (beforeFallCheck idle falling)) = 0" by code_simp
  have a: "shieldCount (player shielded) = 1" by code_simp
  have b: "noShield (platforms shielded)" by code_simp
  have c: "y (player (updatePhysics idle shielded)) > CANVAS_HEIGHT" by code_simp
  have d: "y (player (updatePhysics idle (updatePhysics idle shielded))) > CANVAS_HEIGHT"
    by code_simp
  have e: "baseJumpStrength (player shielded) = - 15" by code_simp
  have f: "gameOverCalls shielded = 0" by code_simp
  have a': "shieldCount (player falling) = 0" by code_simp
  have b': "noShield (platforms falling)" by code_simp
  have c': "y (player (updatePhysics idle falling)) > CANVAS_HEIGHT" by code_simp
  have f': "gameOverCalls falling = 0" by code_simp
  show ?thesis
    using C2_shield_single_use [of shielded idle idle] C2_shield_single_use [of falling idle idle]
      a b c d e f a' b' c' f' g
    by simp
qed




subsection \<open>Landing on the first matching platform\<close>

lemma player_emit [simp]: "player (emit ev e) = player e"
  by (simp add: emit_def)


lemma jumpSounds_player [simp]: "jumpSounds (e\<lparr>player := p\<rparr>) = jumpSounds e"
  by (simp add: jumpSounds_def)

lemma jumpSounds_platforms [simp]: "jumpSounds (e\<lparr>platforms := ps\<rparr>) = jumpSounds e"
  by (simp add: jumpSounds_def)

lemma jumpSounds_activatePowerUp [simp]:
  "jumpSounds (activatePowerUp t now e) = jumpSounds e"
  by (cases t) (simp_all add: activatePowerUp_def Let_def jumpSounds_def emit_def)

lemma vy_activatePowerUp [simp]:
  "vy (player (activatePowerUp t now e)) = vy (player e)"
  by (cases t) (simp_all add: activatePowerUp_def Let_def emit_def grow_def)

lemma bottom_activatePowerUp [simp]:
  "y (player (activatePowerUp t now e)) + height (player (activatePowerUp t now e)) =
     y (player e) + height (player e)"
  by (cases t) (simp_all add: activatePowerUp_def Let_def emit_def grow_def)









lemma base_scrolling [simp]:
  "baseJumpStrength (player (scrolling cs d e)) = baseJumpStrength (player e)"
  by (simp add: scrolling_def Let_def emit_def)

lemma base_fallCheck [simp]:
  "baseJumpStrength (player (fallCheck e)) = baseJumpStrength (player e)"
  by (simp add: fallCheck_def emit_def)

lemma base_updatePhysics [simp]:
  "baseJumpStrength (player (updatePhysics inp e)) = baseJumpStrength (player e)"
  by (simp add: updatePhysics_def beforeFallCheck_def)





lemma base_atLoop [simp]:
  "baseJumpStrength (player (atLoop inp e)) = baseJumpStrength (player e)"
  by (simp add: atLoop_def moveVertical_def moveHorizontal_defs Let_def)

lemma jumpSounds_atLoop [simp]: "jumpSounds (atLoop inp e) = jumpSounds e"
  by (simp add: atLoop_def)



subsection \<open>The horizontal clamp\<close>

lemma width_accelerate [simp]: "width (accelerate ks p) = width p"
  by (simp add: accelerate_def Let_def)

lemma isGiant_moveHorizontal [simp]: "isGiant (moveHorizontal ks p) = isGiant p"
  by (simp add: moveHorizontal_defs Let_def)


lemma width_moveHorizontal [simp]: "width (moveHorizontal ks p) = width p"
  by (simp add: moveHorizontal_defs Let_def)






lemma x_scrolling [simp]: "x (player (scrolling cs d e)) = x (player e)"
  by (simp add: scrolling_def Let_def emit_def)

lemma width_scrolling [simp]: "width (player (scrolling cs d e)) = width (player e)"
  by (simp add: scrolling_def Let_def emit_def)

lemma vx_scrolling [simp]: "vx (player (scrolling cs d e)) = vx (player e)"
  by (simp add: scrolling_def Let_def emit_def)

lemma x_fallCheck [simp]: "x (player (fallCheck e)) = x (player e)"
  by (simp add: fallCheck_def emit_def)

lemma width_fallCheck [simp]: "width (player (fallCheck e)) = width (player e)"
  by (simp add: fallCheck_def emit_def)

lemma vx_fallCheck [simp]: "vx (player (fallCheck e)) = vx (player e)"
  by (simp add: fallCheck_def emit_def)



lemma vx_activatePowerUp [simp]: "vx (player (activatePowerUp t now e)) = vx (player e)"
  by (cases t) (simp_all add: activatePowerUp_def Let_def emit_def grow_def)






subsection \<open>The platform generator\<close>

text \<open>
  Between the scores 500 and 1500 the width of a generated platform does not depend on any
  draw.
\<close>

lemma static_width:
  assumes "500 < currentScore" and "currentScore \<le> 1500"
  shows "width (newPlatform currentScore d lastPlat) =
           max (PLATFORM_WIDTH * (1 - min ((currentScore - 500) / 5000) 0.5)) 45"
  using assms by (simp add: newPlatform_def Let_def)

text \<open>
  C7 does not hold on the code. The generator clamps \<open>initialX\<close> with the width the
  platform has at that point and resizes a moving platform afterwards. At score 1600, with
  the draws \<open>wideDraws\<close>, the step generates a moving platform with \<open>initialX = 268.1\<close>,
  \<open>moveRange = 50\<close> and width about 137.14: the right end of its oscillation is at 455.24
  and the platform itself reaches 405.24 at creation, beyond the canvas width 400.
\<close>

theorem C7_oscillation_off_screen:
  "unitDraws wideDraws \<and> score highUp = 1600 \<and>
   (let p = last (platforms (updatePhysics (idle\<lparr>rnd := wideDraws\<rparr>) highUp))
    in isMoving p = Some True \<and>
       x p = 2681 / 10 \<and>
       initialX p = Some (2681 / 10) \<and>
       moveRange p = Some 50 \<and>
       width p = 342840771 / 2500000 \<and>
       CANVAS_WIDTH < 2681 / 10 + 50 + width p \<and>
       CANVAS_WIDTH < x p + width p)"
  by code_simp

text \<open>
  C8 does not hold on the code. At score 600 the step generates a platform of width
  \<open>105 * (1 - 0.02) = 102.9\<close> whether the difficulty draw is 0 (scale 0.8) or 0.99 (scale
  1.196): the shrink is computed from \<open>PLATFORM_WIDTH\<close> and overwrites the scaled width.
  Applied to the scaled width, as the claim says, the shrink would give 82.32 for the
  draw 0.
\<close>

theorem C8_random_scale_discarded:
  "unitDraws narrowDraws \<and> unitDraws broadDraws \<and> score early = 600 \<and>
   width (last (platforms (updatePhysics (idle\<lparr>rnd := narrowDraws\<rparr>) early))) = 1029 / 10 \<and>
   width (last (platforms (updatePhysics (idle\<lparr>rnd := broadDraws\<rparr>) early))) = 1029 / 10 \<and>
   PLATFORM_WIDTH * (1 - min ((600 - 500) / 5000) 0.5) = 1029 / 10 \<and>
   PLATFORM_WIDTH * (0.8 + difficultyDraw narrowDraws * 0.4) * (1 - min ((600 - 500) / 5000) 0.5)
     = 8232 / 100"
  by code_simp

end
